theory Spec2Isabelle
  imports Main "HOL-Library.Word" "HOL-Library.Log_Nat"
begin

section \<open>The recurrent GAN example for MNIST (examples/mnist_rnn_gan.py)\<close>

text \<open>
  The script wires a layer library and an adversarial training framework together.
  The collaborators (keras, gandlf, numpy, matplotlib) are opaque: a call into them
  is recorded with its arguments, and what the script itself decides (which inputs a
  network declares, which keys the training dictionary holds, how pixels are
  normalised, which check fails first) is computed by the functions below.
\<close>

subsection \<open>Strings\<close>

text \<open>
  \<open>str.lower()\<close> on the byte strings that \<open>argparse\<close> hands to the script: the
  letters \<open>A\<close> to \<open>Z\<close> are replaced by \<open>a\<close> to \<open>z\<close>, every other character is kept. No
  character outside ASCII is lower-cased to a letter of \<open>none\<close>, \<open>1d\<close>, \<open>2d\<close>, \<open>normal\<close>
  or \<open>uniform\<close> by the Unicode rules either, so the membership tests below do not
  depend on the Python version.
\<close>

definition lower_char :: "char \<Rightarrow> char" where
  "lower_char c =
     (case map_of (zip ''ABCDEFGHIJKLMNOPQRSTUVWXYZ'' ''abcdefghijklmnopqrstuvwxyz'') c of
        Some d \<Rightarrow> d
      | None \<Rightarrow> c)"

definition lower :: "string \<Rightarrow> string" where
  "lower s = map lower_char s"

subsection \<open>The layer graph\<close>

text \<open>
  A keras layer is a constructor with the arguments the script passes; a tensor is an
  \<open>Input\<close> (shape, dtype, name) or a layer applied to a tensor. The attention wrappers of
  \<open>gandlf.layers\<close> take the recurrent layer they wrap and the tensor attended to.
\<close>

datatype layer =
    LSTM nat bool
  | Dense nat string
  | TimeDistributed layer
  | RepeatVector nat
  | Reshape "nat list" "string option"
  | Embedding nat nat string
  | Flatten
  | RecurrentAttention1D layer tensor
  | RecurrentAttention2D layer tensor
and tensor =
    Input "int list" string string
  | Apply layer tensor

record keras_model =
  model_input :: "tensor list"
  model_output :: tensor

text \<open>The name under which a tensor was declared as an input; a computed tensor has none.\<close>

fun input_name :: "tensor \<Rightarrow> string option" where
  "input_name (Input shp dt nm) = Some nm"
| "input_name (Apply l t) = None"

definition input_names :: "keras_model \<Rightarrow> string option list" where
  "input_names m = map input_name (model_input m)"

subsection \<open>build_generator and build_discriminator\<close>

definition build_generator :: "int \<Rightarrow> string \<Rightarrow> keras_model" where
  "build_generator latent_size mode =
     (let latent = Input [latent_size] ''float32'' ''latent'';
          rnn_input = Apply (RepeatVector 28) latent;
          rnn_1 = LSTM 128 True;
          output = Dense 28 ''tanh'';
          output = TimeDistributed output;
          expand = Reshape [28, 28, 1] (Some ''gen_image'');
          (rnn_1, inputs) =
            (if mode = ''1d'' then
               let input_class = Input [1] ''int32'' ''image_class_gen'';
                   embed = Embedding 10 64 ''glorot_normal'';
                   embedded = Apply Flatten (Apply embed input_class);
                   rnn_1 = RecurrentAttention1D rnn_1 embedded
               in (rnn_1, [latent, input_class])
             else if mode = ''2d'' then
               let ref_image = Input [28, 28, 1] ''float32'' ''ref_image_gen'';
                   flat = Apply (Reshape [28, 28] None) ref_image;
                   rnn_1 = RecurrentAttention2D rnn_1 flat
               in (rnn_1, [latent, ref_image])
             else (rnn_1, [latent]));
          gen_image = Apply expand (Apply output (Apply rnn_1 rnn_input))
      in \<lparr>model_input = inputs, model_output = gen_image\<rparr>)"

definition build_discriminator :: "string \<Rightarrow> keras_model" where
  "build_discriminator mode =
     (let image = Input [28, 28, 1] ''float32'' ''real_data'';
          rnn_input = Apply (Reshape [28, 28] None) image;
          rnn_1 = LSTM 128 False;
          class_pred = Dense 1 ''sigmoid'';
          (rnn_1, inputs) =
            (if mode = ''1d'' then
               let input_class = Input [1] ''int32'' ''image_class_dis'';
                   embed = Embedding 10 64 ''glorot_normal'';
                   embedded = Apply Flatten (Apply embed input_class);
                   rnn_1 = RecurrentAttention1D rnn_1 embedded
               in (rnn_1, [image, input_class])
             else if mode = ''2d'' then
               let ref_image = Input [28, 28, 1] ''float32'' ''ref_image_dis'';
                   attn_reshaped = Apply (Reshape [28, 28] None) ref_image;
                   rnn_1 = RecurrentAttention2D rnn_1 attn_reshaped
               in (rnn_1, [image, ref_image])
             else (rnn_1, [image]));
          pred_fake = Apply class_pred (Apply rnn_1 rnn_input)
      in \<lparr>model_input = inputs, model_output = pred_fake\<rparr>)"

subsection \<open>numpy arrays\<close>

text \<open>
  An array is its shape and its elements in row-major order, as numpy stores it. The
  images and labels that \<open>mnist.load_data()\<close> returns are \<open>uint8\<close> arrays. An element of a
  computed array carries the dtype numpy gives it.
\<close>

record 'a ndarray =
  shape :: "nat list"
  data :: "'a list"

datatype scalar = Int64 int | Float32 rat | Float64 rat

type_synonym uint8 = "8 word"

definition map_ndarray :: "('a \<Rightarrow> 'b) \<Rightarrow> 'a ndarray \<Rightarrow> 'b ndarray" where
  "map_ndarray f a = \<lparr>shape = shape a, data = map f (data a)\<rparr>"

text \<open>\<open>a >= k\<close> for a \<open>uint8\<close> array and a Python integer: compared as integers.\<close>

definition ge_int :: "uint8 ndarray \<Rightarrow> int \<Rightarrow> bool ndarray" where
  "ge_int a k = map_ndarray (\<lambda>p. k \<le> uint p) a"

text \<open>\<open>np.where(cond, x, y)\<close> with two Python integers: an \<open>int64\<close> array.\<close>

definition np_where :: "bool ndarray \<Rightarrow> int \<Rightarrow> int \<Rightarrow> scalar ndarray" where
  "np_where cond x y = map_ndarray (\<lambda>c. if c then Int64 x else Int64 y) cond"

text \<open>
  \<open>np.expand_dims(a, axis=-1)\<close>, the only axis the script passes: a dimension of size 1
  after the last one; the elements stay as they are.
\<close>

definition expand_dims :: "'a ndarray \<Rightarrow> 'a ndarray" where
  "expand_dims a = a\<lparr>shape := shape a @ [1]\<rparr>"

subsection \<open>Binary floating point\<close>

text \<open>
  A finite floating-point number is the rational it denotes. \<open>fp_round prec emin x\<close> is
  \<open>x\<close> rounded to the nearest number with \<open>prec\<close> significant bits and least exponent
  \<open>emin\<close>, ties to the even significand, as IEEE 754 arithmetic rounds every result:
  \<open>ilog2\<close> is the binary exponent of a positive rational (\<open>2 ^ e \<le> x < 2 ^ (e + 1)\<close>), and
  the result is a multiple of the spacing \<open>2 ^ (e - (prec - 1))\<close> at that exponent.
  Overflow to infinity is not represented; the values of this script stay within
  \<open>[-255, 255]\<close>.
\<close>

definition round_half_even :: "rat \<Rightarrow> int" where
  "round_half_even y =
     (let f = \<lfloor>y\<rfloor>; d = y - of_int f
      in if d < 1 / 2 then f else if 1 / 2 < d then f + 1 else if even f then f else f + 1)"

definition ilog2 :: "rat \<Rightarrow> int" where
  "ilog2 x =
     (let (a, b) = quotient_of x;
          k = int (floorlog 2 (nat a)) - int (floorlog 2 (nat b))
      in if 2 powi k \<le> x then k else k - 1)"

definition fp_round :: "nat \<Rightarrow> int \<Rightarrow> rat \<Rightarrow> rat" where
  "fp_round prec emin x =
     (if x = 0 then 0
      else let e = max (ilog2 \<bar>x\<bar>) emin;
               q = 2 powi (e - (int prec - 1))
           in of_int (round_half_even (x / q)) * q)"

definition f32_round :: "rat \<Rightarrow> rat" where
  "f32_round x = fp_round 24 (- 126) x"

definition f64_round :: "rat \<Rightarrow> rat" where
  "f64_round x = fp_round 53 (- 1022) x"

text \<open>\<open>a.astype(np.float32)\<close> on a \<open>uint8\<close> array: every value 0..255 is a float32.\<close>

definition astype_float32 :: "uint8 ndarray \<Rightarrow> scalar ndarray" where
  "astype_float32 a = map_ndarray (\<lambda>p. Float32 (f32_round (of_int (uint p)))) a"

text \<open>
  \<open>a - c\<close> and \<open>a / c\<close> for an array and a Python float: a float32 array stays float32 (the
  scalar is converted to float32 and the operation rounds once), an integer array is
  promoted to float64. The script's only \<open>c\<close> is \<open>127.5\<close>, so the divisor is not zero.
\<close>

fun sub_scalar :: "scalar \<Rightarrow> rat \<Rightarrow> scalar" where
  "sub_scalar (Float32 x) c = Float32 (f32_round (x - f32_round c))"
| "sub_scalar (Float64 x) c = Float64 (f64_round (x - f64_round c))"
| "sub_scalar (Int64 i) c = Float64 (f64_round (f64_round (of_int i) - f64_round c))"

fun div_scalar :: "scalar \<Rightarrow> rat \<Rightarrow> scalar" where
  "div_scalar (Float32 x) c = Float32 (f32_round (x / f32_round c))"
| "div_scalar (Float64 x) c = Float64 (f64_round (x / f64_round c))"
| "div_scalar (Int64 i) c = Float64 (f64_round (f64_round (of_int i) / f64_round c))"

definition sub_float :: "scalar ndarray \<Rightarrow> rat \<Rightarrow> scalar ndarray" where
  "sub_float a c = map_ndarray (\<lambda>x. sub_scalar x c) a"

definition div_float :: "scalar ndarray \<Rightarrow> rat \<Rightarrow> scalar ndarray" where
  "div_float a c = map_ndarray (\<lambda>x. div_scalar x c) a"

subsection \<open>get_mnist_data\<close>

text \<open>
  The first argument is what \<open>mnist.load_data()\<close> returned: the training and the test
  split, each a pair of images and labels.
\<close>

type_synonym 'a split = "'a ndarray \<times> uint8 ndarray"

definition get_mnist_data :: "uint8 split \<times> uint8 split \<Rightarrow> bool \<Rightarrow> scalar split \<times> scalar split" where
  "get_mnist_data loaded binarize =
     (let ((X_train, y_train), (X_test, y_test)) = loaded;
          (X_train, X_test) =
            (if binarize then
               let X_test = np_where (ge_int X_test 10) 1 (- 1);
                   X_train = np_where (ge_int X_train 10) 1 (- 1)
               in (X_train, X_test)
             else
               let X_train = div_float (sub_float (astype_float32 X_train) (255 / 2)) (255 / 2);
                   X_test = div_float (sub_float (astype_float32 X_test) (255 / 2)) (255 / 2)
               in (X_train, X_test));
          X_train = expand_dims X_train;
          X_test = expand_dims X_test;
          y_train = expand_dims y_train;
          y_test = expand_dims y_test
      in ((X_train, y_train), (X_test, y_test)))"

subsection \<open>train_model\<close>

text \<open>The command-line arguments, as \<open>argparse\<close> returns them.\<close>

record args =
  nb_epoch :: int
  nb_batch :: int
  plot :: int
  binarize :: bool
  nb_latent :: int
  save_path :: string
  gen_mode :: string
  dis_mode :: string
  latent_type :: string
  lr :: rat
  beta :: rat

text \<open>The defaults declared with \<open>add_argument\<close>; \<open>0.001\<close> is the nearest double.\<close>

definition default_args :: args where
  "default_args =
     \<lparr>nb_epoch = 10, nb_batch = 32, plot = 0, binarize = False, nb_latent = 100,
      save_path = ''/tmp/mnist_rnn_gan.keras_model'', gen_mode = ''none'',
      dis_mode = ''none'', latent_type = ''uniform'', lr = f64_round (1 / 1000),
      beta = f64_round (1 / 2)\<rparr>"

text \<open>
  The adversarial model of \<open>gandlf\<close> is opaque. Its state here is what the script gave
  it: the two networks, the optimizer and loss of \<open>compile\<close>, and the arguments of each
  \<open>fit\<close>. A value of the \<open>inputs\<close> dictionary is the name of a latent distribution, an
  image array or a label array.
\<close>

datatype optimizer = Adam rat rat

datatype fit_input = Latent string | Images "scalar ndarray" | Labels "uint8 ndarray"

record fit_call =
  fit_inputs :: "string \<rightharpoonup> fit_input"
  fit_outputs :: "string \<rightharpoonup> string"
  fit_nb_epoch :: int
  fit_batch_size :: int

record gandlf_model =
  generator :: keras_model
  discriminator :: keras_model
  compiled :: "(optimizer \<times> string) option"
  fit_calls :: "fit_call list"

definition gandlf_Model :: "keras_model \<Rightarrow> keras_model \<Rightarrow> gandlf_model" where
  "gandlf_Model g d = \<lparr>generator = g, discriminator = d, compiled = None, fit_calls = []\<rparr>"

definition compile :: "gandlf_model \<Rightarrow> optimizer \<Rightarrow> string \<Rightarrow> gandlf_model" where
  "compile m opt loss = m\<lparr>compiled := Some (opt, loss)\<rparr>"

definition fit :: "gandlf_model \<Rightarrow> (string \<rightharpoonup> fit_input) \<Rightarrow> (string \<rightharpoonup> string) \<Rightarrow> int \<Rightarrow> int
    \<Rightarrow> gandlf_model" where
  "fit m ins outs epochs batch =
     m\<lparr>fit_calls := fit_calls m @
          [\<lparr>fit_inputs = ins, fit_outputs = outs, fit_nb_epoch = epochs, fit_batch_size = batch\<rparr>]\<rparr>"

definition train_model :: "args \<Rightarrow> scalar ndarray \<Rightarrow> uint8 ndarray \<Rightarrow> gandlf_model" where
  "train_model a X_train y_train =
     (let adam_optimizer = Adam (lr a) (beta a);
          (gen_mode, dis_mode) = (lower (gen_mode a), lower (dis_mode a));
          generator = build_generator (nb_latent a) gen_mode;
          discriminator = build_discriminator dis_mode;
          model = gandlf_Model generator discriminator;
          model = compile model adam_optimizer ''binary_crossentropy'';
          inputs = [''latent'' \<mapsto> Latent (lower (latent_type a)), ''real_data'' \<mapsto> Images X_train];
          inputs = (if gen_mode = ''1d'' then inputs(''image_class_gen'' \<mapsto> Labels y_train)
                    else if gen_mode = ''2d'' then inputs(''ref_image_gen'' \<mapsto> Images X_train)
                    else inputs);
          inputs = (if dis_mode = ''1d'' then inputs(''image_class_dis'' \<mapsto> Labels y_train)
                    else if dis_mode = ''2d'' then inputs(''ref_image_dis'' \<mapsto> Images X_train)
                    else inputs);
          outputs = [''gen_real'' \<mapsto> ''1'', ''fake'' \<mapsto> ''0''];
          model = fit model inputs outputs (nb_epoch a) (nb_batch a)
      in model)"

subsection \<open>The main block\<close>

text \<open>
  What the script needs from outside: the dataset that \<open>mnist.load_data()\<close> returns and
  whether \<open>import matplotlib.pyplot\<close> succeeds.
\<close>

record environment =
  mnist :: "uint8 split \<times> uint8 split"
  matplotlib_installed :: bool

datatype error = ValueError string | ImportError string

text \<open>
  The steps the main block has completed, in order. \<open>Trained\<close> is the call of
  \<open>train_model\<close>, in which both networks are built, compiled and fitted. An argument of
  \<open>model.sample\<close> is the latent type or \<open>y_train[:k]\<close>, kept as the array and \<open>k\<close>. What
  is drawn and printed for each sample depends on the samples the framework returns
  and is summarised as \<open>Plotted\<close>.
\<close>

datatype sample_arg = Latent_type string | Labels_upto "uint8 ndarray" int

datatype step =
    Imported_pyplot
  | Loaded_data bool
  | Trained gandlf_model
  | Sampled "sample_arg list" "int option"
  | Plotted
  | Saved string
  | Printed string

definition quoted :: "string \<Rightarrow> string" where
  "quoted s = [CHR 0x22] @ s @ [CHR 0x22]"

definition mode_message :: "string \<Rightarrow> string" where
  "mode_message name =
     quoted name @ '' should be '' @ quoted ''none'' @ '' (no attention), '' @ quoted ''1d''
       @ '' (pay attention to labels), or '' @ quoted ''2d''
       @ '' (pay attention to image). Got: ''"

definition latent_message :: string where
  "latent_message =
     ''Latent vector must be either '' @ quoted ''normal'' @ '' or '' @ quoted ''uniform''
       @ '', got ''"

definition plot_message :: string where
  "plot_message =
     ''To plot samples from the generator, you must install Matplotlib (not found in path).''"

text \<open>
  The main block after \<open>parse_args\<close>: the result is the list of completed steps and
  either the exception that ended the script or the trained model.
\<close>

definition main :: "environment \<Rightarrow> args \<Rightarrow> step list \<times> (error + gandlf_model)" where
  "main env a =
     (if lower (gen_mode a) \<notin> set [''none'', ''1d'', ''2d''] then
        ([], Inl (ValueError (mode_message ''gen_mode'' @ gen_mode a)))
      else if lower (dis_mode a) \<notin> set [''none'', ''1d'', ''2d''] then
        ([], Inl (ValueError (mode_message ''dis_mode'' @ dis_mode a)))
      else if lower (latent_type a) \<notin> set [''normal'', ''uniform''] then
        ([], Inl (ValueError (latent_message @ lower (latent_type a) @ ''.'')))
      else if plot a \<noteq> 0 \<and> \<not> matplotlib_installed env then
        ([], Inl (ImportError plot_message))
      else
        let steps = (if plot a \<noteq> 0 then [Imported_pyplot] else []);
            ((X_train, y_train), _) = get_mnist_data (mnist env) (binarize a);
            steps = steps @ [Loaded_data (binarize a)];
            model = train_model a X_train y_train;
            steps = steps @ [Trained model];
            steps = steps @
              (if plot a \<noteq> 0 then
                 (if lower (gen_mode a) = ''none'' then
                    [Sampled [Latent_type (latent_type a)] (Some (plot a)), Plotted]
                  else
                    [Sampled [Latent_type (latent_type a), Labels_upto y_train (plot a)] None,
                     Plotted])
               else []);
            steps = steps @ [Saved (save_path a), Printed (''Saved model: '' @ save_path a)]
        in (steps, Inr model))"

section \<open>Properties\<close>

subsection \<open>Declared inputs of the two networks\<close>

text \<open>
  C2. For each of the modes \<open>none\<close>, \<open>1d\<close> and \<open>2d\<close>, every input of the generator and of
  the discriminator is a named input tensor, and the set of declared names is:
  generator \<open>{latent}\<close>, \<open>{latent, image_class_gen}\<close>, \<open>{latent, ref_image_gen}\<close>;
  discriminator \<open>{real_data}\<close>, \<open>{real_data, image_class_dis}\<close>,
  \<open>{real_data, ref_image_dis}\<close>.
\<close>

theorem declared_inputs_by_mode:
  "set (input_names (build_generator n ''none'')) = {Some ''latent''}
   \<and> set (input_names (build_generator n ''1d'')) = {Some ''latent'', Some ''image_class_gen''}
   \<and> set (input_names (build_generator n ''2d'')) = {Some ''latent'', Some ''ref_image_gen''}
   \<and> set (input_names (build_discriminator ''none'')) = {Some ''real_data''}
   \<and> set (input_names (build_discriminator ''1d'')) = {Some ''real_data'', Some ''image_class_dis''}
   \<and> set (input_names (build_discriminator ''2d'')) = {Some ''real_data'', Some ''ref_image_dis''}"
  by (simp add: build_generator_def build_discriminator_def input_names_def Let_def)

text \<open>
  C10. Called directly, the two builders have no failing branch: they are total
  functions of their arguments. For every mode string other than exactly \<open>1d\<close> and \<open>2d\<close>
  (a misspelt mode, or \<open>1D\<close> in upper case) they take the last branch and return a model
  whose only input is the primary one, \<open>latent\<close> for the generator and \<open>real_data\<close> for the
  discriminator, with the bare LSTM as recurrent core.
\<close>

theorem builders_fall_through:
  assumes "mode \<noteq> ''1d''" and "mode \<noteq> ''2d''"
  shows "input_names (build_generator n mode) = [Some ''latent'']
       \<and> input_names (build_discriminator mode) = [Some ''real_data'']
       \<and> build_generator n mode = build_generator n ''none''
       \<and> build_discriminator mode = build_discriminator ''none''"
  using assms
  by (simp add: build_generator_def build_discriminator_def input_names_def Let_def)

theorem builders_fall_through_witness:
  "''1D'' \<noteq> ''1d'' \<and> ''1D'' \<noteq> ''2d''
   \<and> input_names (build_generator 100 ''1D'') = [Some ''latent'']
   \<and> input_names (build_discriminator ''1D'') = [Some ''real_data'']"
proof -
  have a: "''1D'' \<noteq> ''1d''" and b: "''1D'' \<noteq> ''2d''"
    by simp_all
  from builders_fall_through [OF a b, of 100] a b show ?thesis
    by blast
qed

subsection \<open>The dataset adapter\<close>

text \<open>What \<open>get_mnist_data\<close> returns in each of its two branches, element by element.\<close>

lemma get_mnist_data_binarize:
  "get_mnist_data ((X_train, y_train), (X_test, y_test)) True =
     ((\<lparr>shape = shape X_train @ [1],
         data = map (\<lambda>p. if 10 \<le> uint p then Int64 1 else Int64 (- 1)) (data X_train)\<rparr>,
       y_train\<lparr>shape := shape y_train @ [1]\<rparr>),
      (\<lparr>shape = shape X_test @ [1],
         data = map (\<lambda>p. if 10 \<le> uint p then Int64 1 else Int64 (- 1)) (data X_test)\<rparr>,
       y_test\<lparr>shape := shape y_test @ [1]\<rparr>))"
  by (simp add: get_mnist_data_def np_where_def ge_int_def map_ndarray_def expand_dims_def
        comp_def)

lemma get_mnist_data_continuous:
  "get_mnist_data ((X_train, y_train), (X_test, y_test)) False =
     ((\<lparr>shape = shape X_train @ [1],
         data = map (\<lambda>p. div_scalar (sub_scalar (Float32 (f32_round (of_int (uint p)))) (255 / 2)) (255 / 2)) (data X_train)\<rparr>,
       y_train\<lparr>shape := shape y_train @ [1]\<rparr>),
      (\<lparr>shape = shape X_test @ [1],
         data = map (\<lambda>p. div_scalar (sub_scalar (Float32 (f32_round (of_int (uint p)))) (255 / 2)) (255 / 2)) (data X_test)\<rparr>,
       y_test\<lparr>shape := shape y_test @ [1]\<rparr>))"
  by (simp add: get_mnist_data_def astype_float32_def sub_float_def div_float_def
        map_ndarray_def expand_dims_def comp_def)

text \<open>
  C4. With \<open>binarize=True\<close>, whatever the loaded pixel arrays hold, every element of the
  returned training images and of the returned test images is the integer \<open>-1\<close> or the
  integer \<open>1\<close>.
\<close>

theorem binarized_pixels_are_signs:
  "set (data (fst (fst (get_mnist_data loaded True)))) \<subseteq> {Int64 (- 1), Int64 1}
   \<and> set (data (fst (snd (get_mnist_data loaded True)))) \<subseteq> {Int64 (- 1), Int64 1}"
proof -
  obtain X_train y_train X_test y_test :: "uint8 ndarray"
    where l: "loaded = ((X_train, y_train), (X_test, y_test))"
    by (metis surj_pair)
  show ?thesis unfolding l get_mnist_data_binarize by auto
qed

theorem binarized_pixels_are_signs_witness:
  "set (data (fst (fst (get_mnist_data
      ((\<lparr>shape = [1, 2, 2], data = [0, 9, 10, 255]\<rparr>, \<lparr>shape = [1], data = [5]\<rparr>),
       (\<lparr>shape = [1, 1, 2], data = [200, 3]\<rparr>, \<lparr>shape = [1], data = [7]\<rparr>)) True))))
     \<subseteq> {Int64 (- 1), Int64 1}
   \<and> data (fst (fst (get_mnist_data
      ((\<lparr>shape = [1, 2, 2], data = [0, 9, 10, 255]\<rparr>, \<lparr>shape = [1], data = [5]\<rparr>),
       (\<lparr>shape = [1, 1, 2], data = [200, 3]\<rparr>, \<lparr>shape = [1], data = [7]\<rparr>)) True)))
     = [Int64 (- 1), Int64 (- 1), Int64 1, Int64 1]"
proof -
  have "data (fst (fst (get_mnist_data
      ((\<lparr>shape = [1, 2, 2], data = [0, 9, 10, 255]\<rparr>, \<lparr>shape = [1], data = [5]\<rparr>),
       (\<lparr>shape = [1, 1, 2], data = [200, 3]\<rparr>, \<lparr>shape = [1], data = [7]\<rparr>)) True)))
     = [Int64 (- 1), Int64 (- 1), Int64 1, Int64 1]"
    by (simp add: get_mnist_data_def np_where_def ge_int_def map_ndarray_def expand_dims_def)
  with binarized_pixels_are_signs [of
      "((\<lparr>shape = [1, 2, 2], data = [0, 9, 10, 255]\<rparr>, \<lparr>shape = [1], data = [5]\<rparr>),
       (\<lparr>shape = [1, 1, 2], data = [200, 3]\<rparr>, \<lparr>shape = [1], data = [7]\<rparr>))"]
  show ?thesis by blast
qed

text \<open>
  C9. With \<open>binarize=True\<close> the threshold is 10. The returned training images and the
  returned test images hold, position by position, one element for every loaded
  pixel \<open>p\<close>: the integer \<open>1\<close> when \<open>p \<ge> 10\<close> and the integer \<open>-1\<close> otherwise. So a pixel is
  mapped to \<open>1\<close> if and only if \<open>p \<ge> 10\<close>, and to \<open>-1\<close> if and only if \<open>p < 10\<close>.
\<close>

theorem binarize_threshold_is_ten:
  fixes X_train X_test :: "uint8 ndarray"
  shows "data (fst (fst (get_mnist_data ((X_train, y_train), (X_test, y_test)) True)))
           = map (\<lambda>p. if 10 \<le> uint p then Int64 1 else Int64 (- 1)) (data X_train)
       \<and> data (fst (snd (get_mnist_data ((X_train, y_train), (X_test, y_test)) True)))
           = map (\<lambda>p. if 10 \<le> uint p then Int64 1 else Int64 (- 1)) (data X_test)
       \<and> (\<forall>p :: uint8.
             ((if 10 \<le> uint p then Int64 1 else Int64 (- 1)) = Int64 1 \<longleftrightarrow> 10 \<le> uint p)
           \<and> ((if 10 \<le> uint p then Int64 1 else Int64 (- 1)) = Int64 (- 1) \<longleftrightarrow> uint p < 10))"
  by (simp add: get_mnist_data_binarize)

theorem binarize_threshold_is_ten_witness:
  "data (fst (fst (get_mnist_data
        ((\<lparr>shape = [1, 2, 2], data = [0, 9, 10, 255]\<rparr>, \<lparr>shape = [1], data = [5]\<rparr>),
         (\<lparr>shape = [2, 1, 2], data = [10, 9, 11, 0]\<rparr>, \<lparr>shape = [2], data = [7, 3]\<rparr>)) True)))
     = [Int64 (- 1), Int64 (- 1), Int64 1, Int64 1]
   \<and> data (fst (snd (get_mnist_data
        ((\<lparr>shape = [1, 2, 2], data = [0, 9, 10, 255]\<rparr>, \<lparr>shape = [1], data = [5]\<rparr>),
         (\<lparr>shape = [2, 1, 2], data = [10, 9, 11, 0]\<rparr>, \<lparr>shape = [2], data = [7, 3]\<rparr>)) True)))
     = [Int64 1, Int64 (- 1), Int64 1, Int64 (- 1)]"
proof -
  let ?X = "\<lparr>shape = [1, 2, 2], data = [0, 9, 10, 255 :: uint8]\<rparr>"
  let ?y = "\<lparr>shape = [1], data = [5 :: uint8]\<rparr>"
  let ?Xt = "\<lparr>shape = [2, 1, 2], data = [10, 9, 11, 0 :: uint8]\<rparr>"
  let ?yt = "\<lparr>shape = [2], data = [7, 3 :: uint8]\<rparr>"
  from binarize_threshold_is_ten [of ?X ?y ?Xt ?yt]
  have tr: "data (fst (fst (get_mnist_data ((?X, ?y), (?Xt, ?yt)) True)))
              = map (\<lambda>p. if 10 \<le> uint p then Int64 1 else Int64 (- 1)) (data ?X)"
    and te: "data (fst (snd (get_mnist_data ((?X, ?y), (?Xt, ?yt)) True)))
              = map (\<lambda>p. if 10 \<le> uint p then Int64 1 else Int64 (- 1)) (data ?Xt)"
    by (rule conjunct1, rule conjunct2 [THEN conjunct1])
  have "map (\<lambda>p. if 10 \<le> uint p then Int64 1 else Int64 (- 1)) (data ?X)
          = [Int64 (- 1), Int64 (- 1), Int64 1, Int64 1]"
    and "map (\<lambda>p. if 10 \<le> uint p then Int64 1 else Int64 (- 1)) (data ?Xt)
          = [Int64 1, Int64 (- 1), Int64 1, Int64 (- 1)]"
    by simp_all
  with tr te show ?thesis by (simp only:) 
qed

text \<open>
  C6. For every loaded dataset and both settings of \<open>binarize\<close>, the shape of each
  returned image array is the shape of the loaded one with a dimension of size 1
  appended, and so is the shape of each returned label array; the number of image
  elements and the labels themselves are unchanged.
\<close>

theorem trailing_dimension_appended:
  "(let ((X_train', y_train'), (X_test', y_test')) =
          get_mnist_data ((X_train, y_train), (X_test, y_test)) b
    in shape X_train' = shape X_train @ [1] \<and> shape X_test' = shape X_test @ [1]
       \<and> shape y_train' = shape y_train @ [1] \<and> shape y_test' = shape y_test @ [1]
       \<and> length (data X_train') = length (data X_train)
       \<and> length (data X_test') = length (data X_test)
       \<and> data y_train' = data y_train \<and> data y_test' = data y_test)"
  by (cases b) (simp_all add: get_mnist_data_binarize get_mnist_data_continuous)

subsection \<open>Rounding to a binary floating-point format\<close>























subsection \<open>The training dictionary\<close>

text \<open>
  C3. \<open>train_model\<close> calls \<open>fit\<close> once. The keys of the \<open>inputs\<close> dictionary of that call
  always include \<open>latent\<close> and \<open>real_data\<close>; \<open>image_class_gen\<close> is a key if and only if the
  lower-cased generator mode is \<open>1d\<close>, \<open>ref_image_gen\<close> if and only if it is \<open>2d\<close>,
  \<open>image_class_dis\<close> if and only if the lower-cased discriminator mode is \<open>1d\<close>,
  \<open>ref_image_dis\<close> if and only if it is \<open>2d\<close>, and there is no other key. Generator
  mode \<open>1d\<close> with discriminator mode \<open>2d\<close> gives exactly
  \<open>{latent, real_data, image_class_gen, ref_image_dis}\<close>. Two runs with the same pair of
  modes have the same keys, whatever the other arguments and the data are. This holds
  for every pair of mode strings, so for the nine pairs of \<open>none\<close>, \<open>1d\<close> and \<open>2d\<close>.
\<close>

theorem training_input_keys:
  "\<exists>c c'. fit_calls (train_model a X y) = [c] \<and> fit_calls (train_model a' X' y') = [c']
     \<and> {''latent'', ''real_data''} \<subseteq> dom (fit_inputs c)
     \<and> (''image_class_gen'' \<in> dom (fit_inputs c) \<longleftrightarrow> lower (gen_mode a) = ''1d'')
     \<and> (''ref_image_gen'' \<in> dom (fit_inputs c) \<longleftrightarrow> lower (gen_mode a) = ''2d'')
     \<and> (''image_class_dis'' \<in> dom (fit_inputs c) \<longleftrightarrow> lower (dis_mode a) = ''1d'')
     \<and> (''ref_image_dis'' \<in> dom (fit_inputs c) \<longleftrightarrow> lower (dis_mode a) = ''2d'')
     \<and> dom (fit_inputs c) \<subseteq> {''latent'', ''real_data'', ''image_class_gen'', ''ref_image_gen'',
                                  ''image_class_dis'', ''ref_image_dis''}
     \<and> (lower (gen_mode a) = ''1d'' \<and> lower (dis_mode a) = ''2d''
          \<longrightarrow> dom (fit_inputs c) = {''latent'', ''real_data'', ''image_class_gen'', ''ref_image_dis''})
     \<and> (lower (gen_mode a') = lower (gen_mode a) \<and> lower (dis_mode a') = lower (dis_mode a)
          \<longrightarrow> dom (fit_inputs c') = dom (fit_inputs c))"
  by (simp add: train_model_def fit_def compile_def gandlf_Model_def Let_def) auto

theorem training_input_keys_witness:
  "lower (gen_mode (default_args\<lparr>gen_mode := ''1D'', dis_mode := ''2d''\<rparr>)) = ''1d''
   \<and> lower (dis_mode (default_args\<lparr>gen_mode := ''1D'', dis_mode := ''2d''\<rparr>)) = ''2d''
   \<and> lower (gen_mode (default_args\<lparr>nb_latent := 10, gen_mode := ''1d'', dis_mode := ''2D''\<rparr>))
       = lower (gen_mode (default_args\<lparr>gen_mode := ''1D'', dis_mode := ''2d''\<rparr>))
   \<and> lower (dis_mode (default_args\<lparr>nb_latent := 10, gen_mode := ''1d'', dis_mode := ''2D''\<rparr>))
       = lower (dis_mode (default_args\<lparr>gen_mode := ''1D'', dis_mode := ''2d''\<rparr>))
   \<and> (\<exists>c c'.
         fit_calls (train_model (default_args\<lparr>gen_mode := ''1D'', dis_mode := ''2d''\<rparr>)
           \<lparr>shape = [1, 1, 2, 1], data = [Int64 (- 1), Int64 1]\<rparr>
           \<lparr>shape = [1, 1], data = [5]\<rparr>) = [c]
       \<and> fit_calls (train_model (default_args\<lparr>nb_latent := 10, gen_mode := ''1d'', dis_mode := ''2D''\<rparr>)
           \<lparr>shape = [1, 1, 1, 1], data = [Float32 1]\<rparr>
           \<lparr>shape = [1, 1], data = [7]\<rparr>) = [c']
       \<and> dom (fit_inputs c) = {''latent'', ''real_data'', ''image_class_gen'', ''ref_image_dis''}
       \<and> dom (fit_inputs c') = {''latent'', ''real_data'', ''image_class_gen'', ''ref_image_dis''})"
proof -
  define a where "a = default_args\<lparr>gen_mode := ''1D'', dis_mode := ''2d''\<rparr>"
  define a' where "a' = default_args\<lparr>nb_latent := 10, gen_mode := ''1d'', dis_mode := ''2D''\<rparr>"
  define X where "X = \<lparr>shape = [1, 1, 2, 1], data = [Int64 (- 1), Int64 1]\<rparr>"
  define y where "y = \<lparr>shape = [1, 1], data = [5 :: uint8]\<rparr>"
  define X' where "X' = \<lparr>shape = [1, 1, 1, 1], data = [Float32 1]\<rparr>"
  define y' where "y' = \<lparr>shape = [1, 1], data = [7 :: uint8]\<rparr>"
  have g: "lower (gen_mode a) = ''1d''" and d: "lower (dis_mode a) = ''2d''"
    and g': "lower (gen_mode a') = lower (gen_mode a)"
    and d': "lower (dis_mode a') = lower (dis_mode a)"
    by (simp_all add: a_def a'_def lower_def lower_char_def)
  from training_input_keys [of a X y a' X' y'] obtain c c'
    where c: "fit_calls (train_model a X y) = [c]"
      and c': "fit_calls (train_model a' X' y') = [c']"
      and k: "lower (gen_mode a) = ''1d'' \<and> lower (dis_mode a) = ''2d''
          \<longrightarrow> dom (fit_inputs c) = {''latent'', ''real_data'', ''image_class_gen'', ''ref_image_dis''}"
      and i: "lower (gen_mode a') = lower (gen_mode a) \<and> lower (dis_mode a') = lower (dis_mode a)
          \<longrightarrow> dom (fit_inputs c') = dom (fit_inputs c)"
    by (elim exE conjE)
  from k g d have k': "dom (fit_inputs c) = {''latent'', ''real_data'', ''image_class_gen'', ''ref_image_dis''}"
    by blast
  from i g' d' have "dom (fit_inputs c') = dom (fit_inputs c)"
    by blast
  with k' have k'': "dom (fit_inputs c') = {''latent'', ''real_data'', ''image_class_gen'', ''ref_image_dis''}"
    by simp
  have "lower (gen_mode a) = ''1d'' \<and> lower (dis_mode a) = ''2d''
     \<and> lower (gen_mode a') = lower (gen_mode a) \<and> lower (dis_mode a') = lower (dis_mode a)
     \<and> (\<exists>c c'. fit_calls (train_model a X y) = [c]
       \<and> fit_calls (train_model a' X' y') = [c']
       \<and> dom (fit_inputs c) = {''latent'', ''real_data'', ''image_class_gen'', ''ref_image_dis''}
       \<and> dom (fit_inputs c') = {''latent'', ''real_data'', ''image_class_gen'', ''ref_image_dis''})"
    using g d g' d' c c' k' k'' by blast
  then show ?thesis unfolding a_def a'_def X_def y_def X'_def y'_def .
qed

subsection \<open>The checks at startup\<close>

text \<open>
  When the three enumeration checks pass and \<open>pyplot\<close> can be imported if it is asked
  for, the main block does load the data, train and save: the list of completed steps
  is empty only when a check has stopped the script.
\<close>

lemma main_trains_when_checks_pass:
  assumes "lower (gen_mode a) \<in> {''none'', ''1d'', ''2d''}"
    and "lower (dis_mode a) \<in> {''none'', ''1d'', ''2d''}"
    and "lower (latent_type a) \<in> {''normal'', ''uniform''}"
    and "plot a = 0 \<or> matplotlib_installed env"
  shows "\<exists>steps model. main env a = (steps, Inr model)
           \<and> Loaded_data (binarize a) \<in> set steps \<and> Trained model \<in> set steps
           \<and> Saved (save_path a) \<in> set steps"
  using assms by (auto simp: main_def Let_def split: prod.splits)

text \<open>
  C1. If the generator mode or the discriminator mode, lower-cased, is none of \<open>none\<close>,
  \<open>1d\<close> and \<open>2d\<close>, the script ends with a \<open>ValueError\<close> and no step completed: the data
  is not loaded and \<open>train_model\<close>, which builds both network graphs, is not called.
  The message ends with the offending value as it was given: that of \<open>gen_mode\<close> when it
  is invalid, otherwise that of \<open>dis_mode\<close>.
\<close>

theorem invalid_mode_rejected:
  assumes "lower (gen_mode a) \<notin> {''none'', ''1d'', ''2d''}
         \<or> lower (dis_mode a) \<notin> {''none'', ''1d'', ''2d''}"
  shows "\<exists>msg. main env a = ([], Inl (ValueError msg))
           \<and> (lower (gen_mode a) \<notin> {''none'', ''1d'', ''2d''}
                \<longrightarrow> msg = mode_message ''gen_mode'' @ gen_mode a)
           \<and> (lower (gen_mode a) \<in> {''none'', ''1d'', ''2d''}
                \<longrightarrow> msg = mode_message ''dis_mode'' @ dis_mode a)"
  using assms by (auto simp: main_def)

theorem invalid_mode_rejected_witness:
  "lower (gen_mode (default_args\<lparr>gen_mode := ''3D''\<rparr>)) \<notin> {''none'', ''1d'', ''2d''}
   \<and> main \<lparr>mnist = ((\<lparr>shape = [1, 1, 2], data = [9, 10]\<rparr>, \<lparr>shape = [1], data = [5]\<rparr>),
                      (\<lparr>shape = [1, 1, 1], data = [255]\<rparr>, \<lparr>shape = [1], data = [7]\<rparr>)),
            matplotlib_installed = True\<rparr>
        (default_args\<lparr>gen_mode := ''3D''\<rparr>)
     = ([], Inl (ValueError (mode_message ''gen_mode'' @ ''3D'')))
   \<and> lower (gen_mode (default_args\<lparr>gen_mode := ''2D'', dis_mode := ''1-d''\<rparr>)) \<in> {''none'', ''1d'', ''2d''}
   \<and> lower (dis_mode (default_args\<lparr>gen_mode := ''2D'', dis_mode := ''1-d''\<rparr>)) \<notin> {''none'', ''1d'', ''2d''}
   \<and> main \<lparr>mnist = ((\<lparr>shape = [1, 1, 2], data = [9, 10]\<rparr>, \<lparr>shape = [1], data = [5]\<rparr>),
                      (\<lparr>shape = [1, 1, 1], data = [255]\<rparr>, \<lparr>shape = [1], data = [7]\<rparr>)),
            matplotlib_installed = True\<rparr>
        (default_args\<lparr>gen_mode := ''2D'', dis_mode := ''1-d''\<rparr>)
     = ([], Inl (ValueError (mode_message ''dis_mode'' @ ''1-d'')))"
proof -
  let ?a = "default_args\<lparr>gen_mode := ''3D''\<rparr>"
  let ?b = "default_args\<lparr>gen_mode := ''2D'', dis_mode := ''1-d''\<rparr>"
  let ?env = "\<lparr>mnist = ((\<lparr>shape = [1, 1, 2], data = [9, 10]\<rparr>, \<lparr>shape = [1], data = [5]\<rparr>),
                      (\<lparr>shape = [1, 1, 1], data = [255]\<rparr>, \<lparr>shape = [1], data = [7]\<rparr>)),
            matplotlib_installed = True\<rparr>"
  have g: "lower (gen_mode ?a) \<notin> {''none'', ''1d'', ''2d''}"
    by (simp add: lower_def lower_char_def)
  then have h: "lower (gen_mode ?a) \<notin> {''none'', ''1d'', ''2d''}
    \<or> lower (dis_mode ?a) \<notin> {''none'', ''1d'', ''2d''}" ..
  from invalid_mode_rejected [OF h, of ?env] obtain msg
    where m: "main ?env ?a = ([], Inl (ValueError msg))"
      and n: "lower (gen_mode ?a) \<notin> {''none'', ''1d'', ''2d''}
                \<longrightarrow> msg = mode_message ''gen_mode'' @ gen_mode ?a"
    by blast
  from n g have "msg = mode_message ''gen_mode'' @ ''3D''" by simp
  with m have first: "main ?env ?a = ([], Inl (ValueError (mode_message ''gen_mode'' @ ''3D'')))"
    by simp
  have gb: "lower (gen_mode ?b) \<in> {''none'', ''1d'', ''2d''}"
    and db: "lower (dis_mode ?b) \<notin> {''none'', ''1d'', ''2d''}"
    by (simp_all add: lower_def lower_char_def)
  from db have hb: "lower (gen_mode ?b) \<notin> {''none'', ''1d'', ''2d''}
    \<or> lower (dis_mode ?b) \<notin> {''none'', ''1d'', ''2d''}" ..
  from invalid_mode_rejected [OF hb, of ?env] obtain msg'
    where m': "main ?env ?b = ([], Inl (ValueError msg'))"
      and n': "lower (gen_mode ?b) \<in> {''none'', ''1d'', ''2d''}
                \<longrightarrow> msg' = mode_message ''dis_mode'' @ dis_mode ?b"
    by blast
  from n' gb have "msg' = mode_message ''dis_mode'' @ dis_mode ?b" by blast
  then have "msg' = mode_message ''dis_mode'' @ ''1-d''" by simp
  with m' have second: "main ?env ?b = ([], Inl (ValueError (mode_message ''dis_mode'' @ ''1-d'')))"
    by simp
  from g first gb db second show ?thesis by (intro conjI)
qed

text \<open>
  C7. If the latent type, lower-cased, is neither \<open>normal\<close> nor \<open>uniform\<close> (the typo
  \<open>ormal\<close>), the script ends with a \<open>ValueError\<close> and no step completed: before the
  dataset is loaded and before any model is built or trained. When both modes are
  valid the message is the one of the latent-type check and names the value, in lower
  case; otherwise the \<open>ValueError\<close> is the one of the mode check, which comes first.
\<close>

theorem invalid_latent_type_rejected:
  assumes "lower (latent_type a) \<notin> {''normal'', ''uniform''}"
  shows "\<exists>msg. main env a = ([], Inl (ValueError msg))
           \<and> (lower (gen_mode a) \<in> {''none'', ''1d'', ''2d''}
                \<and> lower (dis_mode a) \<in> {''none'', ''1d'', ''2d''}
                \<longrightarrow> msg = latent_message @ lower (latent_type a) @ ''.'')"
  using assms by (auto simp: main_def)

theorem invalid_latent_type_rejected_witness:
  "lower (latent_type (default_args\<lparr>latent_type := ''ormal''\<rparr>)) \<notin> {''normal'', ''uniform''}
   \<and> main \<lparr>mnist = ((\<lparr>shape = [1, 1, 2], data = [9, 10]\<rparr>, \<lparr>shape = [1], data = [5]\<rparr>),
                      (\<lparr>shape = [1, 1, 1], data = [255]\<rparr>, \<lparr>shape = [1], data = [7]\<rparr>)),
            matplotlib_installed = True\<rparr>
        (default_args\<lparr>latent_type := ''ormal''\<rparr>)
     = ([], Inl (ValueError (latent_message @ ''ormal.'')))"
proof -
  let ?a = "default_args\<lparr>latent_type := ''ormal''\<rparr>"
  let ?env = "\<lparr>mnist = ((\<lparr>shape = [1, 1, 2], data = [9, 10]\<rparr>, \<lparr>shape = [1], data = [5]\<rparr>),
                      (\<lparr>shape = [1, 1, 1], data = [255]\<rparr>, \<lparr>shape = [1], data = [7]\<rparr>)),
            matplotlib_installed = True\<rparr>"
  have h: "lower (latent_type ?a) \<notin> {''normal'', ''uniform''}"
    by (simp add: lower_def lower_char_def)
  have v: "lower (gen_mode ?a) \<in> {''none'', ''1d'', ''2d''}
             \<and> lower (dis_mode ?a) \<in> {''none'', ''1d'', ''2d''}"
    by (simp add: default_args_def lower_def lower_char_def)
  have l: "lower (latent_type ?a) = ''ormal''"
    by (simp add: lower_def lower_char_def)
  from invalid_latent_type_rejected [OF h, of ?env] obtain msg
    where m: "main ?env ?a = ([], Inl (ValueError msg))"
      and n: "lower (gen_mode ?a) \<in> {''none'', ''1d'', ''2d''}
                \<and> lower (dis_mode ?a) \<in> {''none'', ''1d'', ''2d''}
                \<longrightarrow> msg = latent_message @ lower (latent_type ?a) @ ''.''"
    by blast
  from n v have "msg = latent_message @ lower (latent_type ?a) @ ''.''" by blast
  then have "msg = latent_message @ ''ormal.''" by (simp only: l) simp
  with m h show ?thesis by simp
qed

text \<open>
  C8. If \<open>--plot\<close> is not zero and \<open>matplotlib\<close> cannot be imported, the script ends with
  an exception and no step completed: the data is not loaded and training is never
  entered. The exception is the \<open>ImportError\<close> whenever the three enumeration checks,
  which come first, pass.
\<close>

theorem missing_matplotlib_stops_before_training:
  assumes "plot a \<noteq> 0" and "\<not> matplotlib_installed env"
  shows "\<exists>e. main env a = ([], Inl e)
           \<and> (lower (gen_mode a) \<in> {''none'', ''1d'', ''2d''}
                \<and> lower (dis_mode a) \<in> {''none'', ''1d'', ''2d''}
                \<and> lower (latent_type a) \<in> {''normal'', ''uniform''}
                \<longrightarrow> e = ImportError plot_message)"
  using assms by (auto simp: main_def)

theorem missing_matplotlib_stops_before_training_witness:
  "plot (default_args\<lparr>plot := 3\<rparr>) \<noteq> 0
   \<and> \<not> matplotlib_installed
         \<lparr>mnist = ((\<lparr>shape = [1, 1, 2], data = [9, 10]\<rparr>, \<lparr>shape = [1], data = [5]\<rparr>),
                   (\<lparr>shape = [1, 1, 1], data = [255]\<rparr>, \<lparr>shape = [1], data = [7]\<rparr>)),
          matplotlib_installed = False\<rparr>
   \<and> main \<lparr>mnist = ((\<lparr>shape = [1, 1, 2], data = [9, 10]\<rparr>, \<lparr>shape = [1], data = [5]\<rparr>),
                      (\<lparr>shape = [1, 1, 1], data = [255]\<rparr>, \<lparr>shape = [1], data = [7]\<rparr>)),
            matplotlib_installed = False\<rparr>
        (default_args\<lparr>plot := 3\<rparr>)
     = ([], Inl (ImportError plot_message))"
proof -
  let ?a = "default_args\<lparr>plot := 3\<rparr>"
  let ?env = "\<lparr>mnist = ((\<lparr>shape = [1, 1, 2], data = [9, 10]\<rparr>, \<lparr>shape = [1], data = [5]\<rparr>),
                      (\<lparr>shape = [1, 1, 1], data = [255]\<rparr>, \<lparr>shape = [1], data = [7]\<rparr>)),
            matplotlib_installed = False\<rparr>"
  have p: "plot ?a \<noteq> 0" by simp
  have q: "\<not> matplotlib_installed ?env" by simp
  have v: "lower (gen_mode ?a) \<in> {''none'', ''1d'', ''2d''}
             \<and> lower (dis_mode ?a) \<in> {''none'', ''1d'', ''2d''}
             \<and> lower (latent_type ?a) \<in> {''normal'', ''uniform''}"
    by (simp add: default_args_def lower_def lower_char_def)
  from missing_matplotlib_stops_before_training [OF p q] obtain e
    where m: "main ?env ?a = ([], Inl e)"
      and n: "lower (gen_mode ?a) \<in> {''none'', ''1d'', ''2d''}
                \<and> lower (dis_mode ?a) \<in> {''none'', ''1d'', ''2d''}
                \<and> lower (latent_type ?a) \<in> {''normal'', ''uniform''}
                \<longrightarrow> e = ImportError plot_message"
    by blast
  from n v have "e = ImportError plot_message" by blast
  with m p q show ?thesis by simp
qed

end
